theory Spec2Isabelle
  imports Complex_Main
begin

section \<open>JavaScript values and JSON documents\<close>

text \<open>
  The transform store and the config utilities move parsed JSON around without looking
  inside the numbers, so a value is modelled as the tree JavaScript holds. A number is a
  finite real or one of the three special values; the sign of zero is not distinguished.
  An object is the list of its own properties in insertion order.
\<close>

datatype jsnum = Finite real | NaN | PosInfinity | NegInfinity

datatype jsval =
    VUndefined
  | VNull
  | VBool bool
  | VNum jsnum
  | VStr string
  | VArr "jsval list"
  | VObj "(string \<times> jsval) list"

type_synonym jsobj = "(string \<times> jsval) list"

text \<open>
  A JSON text is represented by the tree it denotes. JSON has no undefined and no
  non-finite number. An object of a tree lists each key once, as every text written by
  JSON.stringify does.
\<close>

datatype json =
    JNull
  | JBool bool
  | JNum real
  | JStr string
  | JArr "json list"
  | JObj "(string \<times> json) list"

datatype error =
    FetchFailed
  | HttpNotOk string
  | ParseFailed
  | KeyNotFound string
  | TypeError
  | ClipboardWriteFailed

text \<open>Sequencing of steps that may throw: the first error ends the computation.\<close>

definition bind_err :: "error + 'a \<Rightarrow> ('a \<Rightarrow> error + 'b) \<Rightarrow> error + 'b" where
  "bind_err m f = (case m of Inl e \<Rightarrow> Inl e | Inr x \<Rightarrow> f x)"

subsection \<open>Property access\<close>

definition obj_get :: "jsobj \<Rightarrow> string \<Rightarrow> jsval" where
  "obj_get kvs k = (case map_of kvs k of None \<Rightarrow> VUndefined | Some v \<Rightarrow> v)"

text \<open>
  \<open>o[k] = v\<close> on an object: an existing property keeps its place, a new one is appended.
\<close>

fun obj_set :: "jsobj \<Rightarrow> string \<Rightarrow> jsval \<Rightarrow> jsobj" where
  "obj_set [] k v = [(k, v)]"
| "obj_set (p # ps) k v = (if fst p = k then (k, v) # ps else p # obj_set ps k v)"

text \<open>
  \<open>{...a, ...b}\<close>: a fresh object with the properties of \<open>a\<close>, then those of \<open>b\<close>
  assigned in order. Values are immutable here, so the fresh copy of \<open>a\<close> is \<open>a\<close>
  itself, and \<open>{...a}\<close> is \<open>a\<close>.
\<close>

definition spread_into :: "jsobj \<Rightarrow> jsobj \<Rightarrow> jsobj" where
  "spread_into a b = foldl (\<lambda>acc p. obj_set acc (fst p) (snd p)) a b"

text \<open>
  Reading \<open>v.k\<close> for one of the property names this program uses (none of them is a
  property of an array, a string, a number or a boolean): null and undefined throw.
\<close>

fun get_prop :: "jsval \<Rightarrow> string \<Rightarrow> error + jsval" where
  "get_prop VUndefined k = Inl TypeError"
| "get_prop VNull k = Inl TypeError"
| "get_prop (VObj kvs) k = Inr (obj_get kvs k)"
| "get_prop v k = Inr VUndefined"

text \<open>
  \<open>v[k] = x\<close> in module (strict) code: null, undefined and primitives throw. A named
  property stored on an array is not seen by JSON.stringify, the only reader of the
  result, so the array is returned as it was.
\<close>

fun set_prop :: "jsval \<Rightarrow> string \<Rightarrow> jsval \<Rightarrow> error + jsval" where
  "set_prop (VObj kvs) k x = Inr (VObj (obj_set kvs k x))"
| "set_prop (VArr xs) k x = Inr (VArr xs)"
| "set_prop v k x = Inl TypeError"

text \<open>\<open>[...v]\<close>: arrays and strings are iterable, nothing else in a parsed document is.\<close>

fun spread_array :: "jsval \<Rightarrow> error + jsval list" where
  "spread_array (VArr xs) = Inr xs"
| "spread_array (VStr s) = Inr (map (\<lambda>c. VStr [c]) s)"
| "spread_array v = Inl TypeError"

fun truthy :: "jsval \<Rightarrow> bool" where
  "truthy VUndefined = False"
| "truthy VNull = False"
| "truthy (VBool b) = b"
| "truthy (VNum (Finite r)) = (r \<noteq> 0)"
| "truthy (VNum NaN) = False"
| "truthy (VNum n) = True"
| "truthy (VStr s) = (s \<noteq> [])"
| "truthy v = True"

subsection \<open>JSON.stringify and JSON.parse\<close>

text \<open>
  \<open>JSON_stringify\<close> gives the tree of the text JSON.stringify writes, \<open>None\<close> where it
  returns undefined. An undefined property is left out, an undefined array element and a
  non-finite number become null.
\<close>

definition defined_fields :: "(string \<times> json option) list \<Rightarrow> (string \<times> json) list" where
  "defined_fields =
     List.map_filter (\<lambda>q. case snd q of None \<Rightarrow> None | Some j \<Rightarrow> Some (fst q, j))"

fun JSON_stringify :: "jsval \<Rightarrow> json option" where
  "JSON_stringify VUndefined = None"
| "JSON_stringify VNull = Some JNull"
| "JSON_stringify (VBool b) = Some (JBool b)"
| "JSON_stringify (VNum (Finite r)) = Some (JNum r)"
| "JSON_stringify (VNum n) = Some JNull"
| "JSON_stringify (VStr s) = Some (JStr s)"
| "JSON_stringify (VArr xs) =
     Some (JArr (map (\<lambda>x. case JSON_stringify x of None \<Rightarrow> JNull | Some j \<Rightarrow> j) xs))"
| "JSON_stringify (VObj kvs) =
     Some (JObj (defined_fields (map (\<lambda>p. (fst p, JSON_stringify (snd p))) kvs)))"

fun JSON_parse :: "json \<Rightarrow> jsval" where
  "JSON_parse JNull = VNull"
| "JSON_parse (JBool b) = VBool b"
| "JSON_parse (JNum r) = VNum (Finite r)"
| "JSON_parse (JStr s) = VStr s"
| "JSON_parse (JArr js) = VArr (map JSON_parse js)"
| "JSON_parse (JObj kjs) = VObj (map (\<lambda>p. (fst p, JSON_parse (snd p))) kjs)"

text \<open>The values JSON can carry: no undefined anywhere, every number finite.\<close>

fun json_representable :: "jsval \<Rightarrow> bool" where
  "json_representable VUndefined = False"
| "json_representable VNull = True"
| "json_representable (VBool b) = True"
| "json_representable (VNum (Finite r)) = True"
| "json_representable (VNum n) = False"
| "json_representable (VStr s) = True"
| "json_representable (VArr xs) = list_all json_representable xs"
| "json_representable (VObj kvs) = list_all (\<lambda>p. json_representable (snd p)) kvs"

section \<open>The config utilities: reading, exporting and importing the document\<close>

text \<open>
  The network is a function from the requested URL to what \<open>fetch\<close> and
  \<open>response.json()\<close> give: a rejected fetch, or a response with its \<open>ok\<close> flag, its
  status text and the parsed body (\<open>None\<close> when the body is not JSON).
\<close>

datatype fetch_result = NetworkError | Response bool string "jsval option"

type_synonym network = "string \<Rightarrow> fetch_result"

definition CONFIG_PATH :: string where
  "CONFIG_PATH = ''/src/config/objectTransforms.json''"

definition readConfig :: "network \<Rightarrow> error + jsval" where
  "readConfig net =
     (case net CONFIG_PATH of
        NetworkError \<Rightarrow> Inl FetchFailed
      | Response ok statusText body \<Rightarrow>
          if \<not> ok then Inl (HttpNotOk statusText)
          else (case body of None \<Rightarrow> Inl ParseFailed | Some v \<Rightarrow> Inr v))"

text \<open>
  \<open>exportToConfig\<close> returns the document handed to the clipboard (its text is the
  two-space rendering of the tree); \<open>clipboard_ok\<close> says whether the write succeeds.
\<close>

definition exportToConfig :: "network \<Rightarrow> bool \<Rightarrow> string \<Rightarrow> jsval \<Rightarrow> error + json option" where
  "exportToConfig net clipboard_ok objectKey cfg =
     bind_err (readConfig net) (\<lambda>existingConfig.
     bind_err (set_prop existingConfig objectKey cfg) (\<lambda>updated.
       let updatedJSON = JSON_stringify updated
       in if clipboard_ok then Inr updatedJSON else Inl ClipboardWriteFailed))"

definition importFromConfig :: "network \<Rightarrow> string \<Rightarrow> error + jsval" where
  "importFromConfig net objectKey =
     bind_err (readConfig net) (\<lambda>cfg.
     bind_err (get_prop cfg objectKey) (\<lambda>v.
       if \<not> truthy v then Inl (KeyNotFound objectKey) else Inr v))"

text \<open>The network that serves a given document at every URL.\<close>

definition serving :: "json \<Rightarrow> network" where
  "serving doc = (\<lambda>u. Response True ''OK'' (Some (JSON_parse doc)))"

text \<open>
  The round trip through the document: the exported text is pasted into the file, and
  the import then reads it back. The text \<open>undefined\<close> is not JSON.
\<close>

definition export_then_import :: "network \<Rightarrow> string \<Rightarrow> jsval \<Rightarrow> error + jsval" where
  "export_then_import net objectKey cfg =
     bind_err (exportToConfig net True objectKey cfg) (\<lambda>text.
       case text of
         None \<Rightarrow> Inl ParseFailed
       | Some doc \<Rightarrow> importFromConfig (serving doc) objectKey)"

subsection \<open>The four objects and their shapes\<close>

datatype object_key = Truck | FuelSensor | TelematicsDisplay | Logo

fun key_name :: "object_key \<Rightarrow> string" where
  "key_name Truck = ''truck''"
| "key_name FuelSensor = ''fuelSensor''"
| "key_name TelematicsDisplay = ''telematicsDisplay''"
| "key_name Logo = ''logo''"

fun is_number :: "jsval \<Rightarrow> bool" where
  "is_number (VNum n) = True"
| "is_number v = False"

fun is_boolean :: "jsval \<Rightarrow> bool" where
  "is_boolean (VBool b) = True"
| "is_boolean v = False"

fun is_tuple :: "nat \<Rightarrow> jsval \<Rightarrow> bool" where
  "is_tuple n (VArr xs) = (length xs = n \<and> list_all is_number xs)"
| "is_tuple n v = False"

text \<open>The fields of interface \<open>ObjectTransforms\<close>, with the check of each field's type.\<close>

fun shape_fields :: "object_key \<Rightarrow> (string \<times> (jsval \<Rightarrow> bool)) list" where
  "shape_fields Truck =
     [(''position'', is_tuple 3), (''rotation'', is_tuple 3), (''scale'', is_tuple 3)]"
| "shape_fields FuelSensor =
     [(''position'', is_tuple 3), (''rotation'', is_tuple 3), (''scale'', is_number),
      (''probeLength'', is_number)]"
| "shape_fields TelematicsDisplay =
     [(''position'', is_tuple 3), (''rotation'', is_tuple 3), (''size'', is_tuple 2)]"
| "shape_fields Logo =
     [(''position'', is_tuple 3), (''rotation'', is_tuple 3), (''scale'', is_tuple 2),
      (''offsetZ'', is_number), (''visible'', is_boolean)]"

fun has_shape :: "object_key \<Rightarrow> jsval \<Rightarrow> bool" where
  "has_shape obj (VObj kvs) =
     (distinct (map fst kvs) \<and> set (map fst kvs) = set (map fst (shape_fields obj)) \<and>
      list_all (\<lambda>f. snd f (obj_get kvs (fst f))) (shape_fields obj))"
| "has_shape obj v = False"

text \<open>A document in which each of the four keys holds a transform of its shape.\<close>

definition all_keys :: "object_key list" where
  "all_keys = [Truck, FuelSensor, TelematicsDisplay, Logo]"

fun four_object_shape :: "jsval \<Rightarrow> bool" where
  "four_object_shape (VObj d) = list_all (\<lambda>obj. has_shape obj (obj_get d (key_name obj))) all_keys"
| "four_object_shape v = False"

subsection \<open>A controller panel\<close>

text \<open>
  Each of the four controllers keeps its own \<open>config\<close> and runs the same import and
  export handlers with its own key. An alert is recorded in \<open>alerted\<close>.
\<close>

record controller =
  config :: jsval
  exported :: bool
  imported :: bool
  alerted :: "string list"

definition handleExport :: "network \<Rightarrow> bool \<Rightarrow> string \<Rightarrow> controller \<Rightarrow> controller" where
  "handleExport net clipboard_ok objectKey c =
     (case exportToConfig net clipboard_ok objectKey (config c) of
        Inr t \<Rightarrow> c\<lparr>exported := True\<rparr>
      | Inl e \<Rightarrow> c\<lparr>alerted := alerted c @ [''Export failed. Check console for details.'']\<rparr>)"

definition handleImport :: "network \<Rightarrow> string \<Rightarrow> controller \<Rightarrow> controller" where
  "handleImport net objectKey c =
     (case importFromConfig net objectKey of
        Inr importedConfig \<Rightarrow> c\<lparr>config := importedConfig, imported := True\<rparr>
      | Inl e \<Rightarrow> c\<lparr>alerted := alerted c @ [''Import failed. Check console for details.'']\<rparr>)"

text \<open>The four controllers side by side; pressing IMPORT on one runs its handler.\<close>

type_synonym panels = "object_key \<Rightarrow> controller"

definition press_import :: "network \<Rightarrow> object_key \<Rightarrow> panels \<Rightarrow> panels" where
  "press_import net obj ps = ps(obj := handleImport net (key_name obj) (ps obj))"

section \<open>The transform store hook\<close>

subsection \<open>Timestamps as text\<close>

text \<open>\<open>Date.now()\<close> is an integer number of milliseconds; \<open>toString\<close> writes it in decimal.\<close>

definition digit_char :: "nat \<Rightarrow> char" where
  "digit_char d = ''0123456789'' ! d"

fun show_nat :: "nat \<Rightarrow> string" where
  "show_nat n = (if n < 10 then [digit_char n] else show_nat (n div 10) @ [digit_char (n mod 10)])"

definition show_int :: "int \<Rightarrow> string" where
  "show_int i = (if i < 0 then CHR ''-'' # show_nat (nat (- i)) else show_nat (nat i))"

text \<open>
  \<open>parseInt\<close> with no radix: leading white space is skipped, a sign is read, a \<open>0x\<close>
  prefix selects base sixteen, and the longest run of digits is converted; no digit at
  all gives NaN, here \<open>None\<close>. The integer is kept exact: \<open>Date.now()\<close> is below
  \<open>2 ^ 53\<close>, so the comparison of the difference with 5000 comes out on the exact
  integer as it does on its double.
\<close>

definition is_white :: "char \<Rightarrow> bool" where
  "is_white c = ((of_char c :: nat) \<in> {9, 10, 11, 12, 13, 32, 160})"

definition digit_of :: "char \<Rightarrow> nat option" where
  "digit_of c =
     (let n = (of_char c :: nat)
      in if 48 \<le> n \<and> n \<le> 57 then Some (n - 48)
         else if 97 \<le> n \<and> n \<le> 122 then Some (n - 87)
         else if 65 \<le> n \<and> n \<le> 90 then Some (n - 55)
         else None)"

definition is_digit_in :: "nat \<Rightarrow> char \<Rightarrow> bool" where
  "is_digit_in radix c = (case digit_of c of None \<Rightarrow> False | Some d \<Rightarrow> d < radix)"

definition digits_value :: "nat \<Rightarrow> string \<Rightarrow> nat" where
  "digits_value radix ds =
     foldl (\<lambda>acc c. acc * radix + (case digit_of c of None \<Rightarrow> 0 | Some d \<Rightarrow> d)) 0 ds"

fun strip_sign :: "string \<Rightarrow> bool \<times> string" where
  "strip_sign [] = (False, [])"
| "strip_sign (c # cs) =
     (if c = CHR ''-'' then (True, cs) else if c = CHR ''+'' then (False, cs) else (False, c # cs))"

fun strip_radix :: "string \<Rightarrow> nat \<times> string" where
  "strip_radix (c # x # cs) =
     (if c = CHR ''0'' \<and> (x = CHR ''x'' \<or> x = CHR ''X'') then (16, cs) else (10, c # x # cs))"
| "strip_radix cs = (10, cs)"

definition parseInt :: "string \<Rightarrow> int option" where
  "parseInt s =
     (let (neg, s2) = strip_sign (dropWhile is_white s);
          (radix, s3) = strip_radix s2;
          ds = takeWhile (is_digit_in radix) s3
      in if ds = [] then None
         else Some ((if neg then - 1 else 1) * int (digits_value radix ds)))"

subsection \<open>State\<close>

fun storage_key :: "object_key \<Rightarrow> string" where
  "storage_key Truck = ''truck-config''"
| "storage_key FuelSensor = ''fuel-sensor-config''"
| "storage_key TelematicsDisplay = ''telematics-display-config''"
| "storage_key Logo = ''logo-config''"

datatype connection_status = Connected | Disconnected

record storage_event =
  ev_key :: string
  ev_newValue :: "string option"
  ev_url :: string

text \<open>
  The hook's two state variables, with the parts of the browser it writes to: local
  storage, the storage events dispatched on the window (oldest first), the alerts shown,
  and the window's location.
\<close>

record studio =
  transforms :: "object_key \<Rightarrow> jsobj"
  connectionStatus :: connection_status
  localStorage :: "string \<Rightarrow> string option"
  events :: "storage_event list"
  alerts :: "string list"
  href :: string

subsection \<open>Connection check\<close>

definition checkConnection :: "int \<Rightarrow> studio \<Rightarrow> studio" where
  "checkConnection now st =
     (case localStorage st ''last-main-page-update'' of
        None \<Rightarrow> st
      | Some lastUpdate \<Rightarrow>
          if lastUpdate = [] then st
          else st\<lparr>connectionStatus :=
                 (case parseInt lastUpdate of
                    None \<Rightarrow> Disconnected
                  | Some t \<Rightarrow> if now - t < 5000 then Connected else Disconnected)\<rparr>)"

subsection \<open>Mirror to local storage\<close>

text \<open>
  \<open>render\<close> is the text JSON.stringify writes for a tree. Where JSON.stringify returns
  undefined, \<open>setItem\<close> stores the text \<open>undefined\<close> and the event's \<open>newValue\<close> is null.
\<close>

definition syncToStorage :: "(json \<Rightarrow> string) \<Rightarrow> int \<Rightarrow> string \<Rightarrow> jsval \<Rightarrow> studio \<Rightarrow> studio" where
  "syncToStorage render now k v st =
     (let text = map_option render (JSON_stringify v);
          stored = (case text of None \<Rightarrow> ''undefined'' | Some s \<Rightarrow> s)
      in st\<lparr>localStorage :=
               (localStorage st)(k \<mapsto> stored, ''controller-update-timestamp'' \<mapsto> show_int now),
             events := events st @ [\<lparr>ev_key = k, ev_newValue = text, ev_url = href st\<rparr>]\<rparr>)"

subsection \<open>Update\<close>

definition updateTransform ::
  "(json \<Rightarrow> string) \<Rightarrow> int \<Rightarrow> object_key \<Rightarrow> jsobj \<Rightarrow> studio \<Rightarrow> studio" where
  "updateTransform render now obj updates st =
     (let prev = transforms st;
          newTransforms = prev(obj := spread_into (prev obj) updates);
          st' = syncToStorage render now (storage_key obj) (VObj (newTransforms obj)) st
      in st'\<lparr>transforms := newTransforms\<rparr>)"

subsection \<open>Import of the whole document\<close>

definition field2 :: "jsval \<Rightarrow> string \<Rightarrow> string \<Rightarrow> error + jsval" where
  "field2 cfg a b = bind_err (get_prop cfg a) (\<lambda>section. get_prop section b)"

text \<open>The object literal built from \<open>config\<close> in \<open>importConfig\<close>.\<close>

definition config_literal :: "jsval \<Rightarrow> error + (object_key \<Rightarrow> jsobj)" where
  "config_literal cfg =
     bind_err (field2 cfg ''truck'' ''position'') (\<lambda>tp.
     bind_err (field2 cfg ''truck'' ''rotation'') (\<lambda>tr.
     bind_err (field2 cfg ''truck'' ''scale'') (\<lambda>ts.
     bind_err (field2 cfg ''fuelSensor'' ''position'') (\<lambda>fp.
     bind_err (field2 cfg ''fuelSensor'' ''rotation'') (\<lambda>fr.
     bind_err (field2 cfg ''fuelSensor'' ''scale'') (\<lambda>fs.
     bind_err (field2 cfg ''fuelSensor'' ''probeLength'') (\<lambda>fl.
     bind_err (field2 cfg ''telematicsDisplay'' ''position'') (\<lambda>dp.
     bind_err (field2 cfg ''telematicsDisplay'' ''rotation'') (\<lambda>dr.
     bind_err (field2 cfg ''telematicsDisplay'' ''size'') (\<lambda>ds.
     bind_err (field2 cfg ''logo'' ''position'') (\<lambda>lp.
     bind_err (field2 cfg ''logo'' ''rotation'') (\<lambda>lr.
     bind_err (field2 cfg ''logo'' ''scale'') (\<lambda>ls.
     bind_err (field2 cfg ''logo'' ''offsetZ'') (\<lambda>lo.
     bind_err (field2 cfg ''logo'' ''visible'') (\<lambda>lv.
       Inr (\<lambda>obj. case obj of
              Truck \<Rightarrow> [(''position'', tp), (''rotation'', tr), (''scale'', ts)]
            | FuelSensor \<Rightarrow>
                [(''position'', fp), (''rotation'', fr), (''scale'', fs), (''probeLength'', fl)]
            | TelematicsDisplay \<Rightarrow> [(''position'', dp), (''rotation'', dr), (''size'', ds)]
            | Logo \<Rightarrow>
                [(''position'', lp), (''rotation'', lr), (''scale'', ls), (''offsetZ'', lo),
                 (''visible'', lv)]))))))))))))))))"

definition fresh_url :: "int \<Rightarrow> string" where
  "fresh_url now = ''/src/config/objectTransforms.json?t='' @ show_int now"

definition importConfig :: "network \<Rightarrow> int \<Rightarrow> studio \<Rightarrow> bool \<times> studio" where
  "importConfig net now st =
     (case net (fresh_url now) of
        NetworkError \<Rightarrow> (False, st)
      | Response ok statusText body \<Rightarrow>
          (case body of
             None \<Rightarrow> (False, st)
           | Some cfg \<Rightarrow>
               (case config_literal cfg of
                  Inl e \<Rightarrow> (False, st)
                | Inr t \<Rightarrow> (True, st\<lparr>transforms := t\<rparr>))))"

subsection \<open>Reset of one object\<close>

definition array2 :: "jsval \<Rightarrow> string \<Rightarrow> string \<Rightarrow> error + jsval" where
  "array2 cfg a b = bind_err (field2 cfg a b) (\<lambda>v. bind_err (spread_array v) (\<lambda>xs. Inr (VArr xs)))"

text \<open>The object literal \<open>defaultConfig\<close> of \<open>resetToDefault\<close>: every array is copied.\<close>

definition default_literal :: "jsval \<Rightarrow> error + (object_key \<Rightarrow> jsobj)" where
  "default_literal cfg =
     bind_err (array2 cfg ''truck'' ''position'') (\<lambda>tp.
     bind_err (array2 cfg ''truck'' ''rotation'') (\<lambda>tr.
     bind_err (array2 cfg ''truck'' ''scale'') (\<lambda>ts.
     bind_err (array2 cfg ''fuelSensor'' ''position'') (\<lambda>fp.
     bind_err (array2 cfg ''fuelSensor'' ''rotation'') (\<lambda>fr.
     bind_err (field2 cfg ''fuelSensor'' ''scale'') (\<lambda>fs.
     bind_err (field2 cfg ''fuelSensor'' ''probeLength'') (\<lambda>fl.
     bind_err (array2 cfg ''telematicsDisplay'' ''position'') (\<lambda>dp.
     bind_err (array2 cfg ''telematicsDisplay'' ''rotation'') (\<lambda>dr.
     bind_err (array2 cfg ''telematicsDisplay'' ''size'') (\<lambda>ds.
     bind_err (array2 cfg ''logo'' ''position'') (\<lambda>lp.
     bind_err (array2 cfg ''logo'' ''rotation'') (\<lambda>lr.
     bind_err (array2 cfg ''logo'' ''scale'') (\<lambda>ls.
     bind_err (field2 cfg ''logo'' ''offsetZ'') (\<lambda>lo.
     bind_err (field2 cfg ''logo'' ''visible'') (\<lambda>lv.
       Inr (\<lambda>obj. case obj of
              Truck \<Rightarrow> [(''position'', tp), (''rotation'', tr), (''scale'', ts)]
            | FuelSensor \<Rightarrow>
                [(''position'', fp), (''rotation'', fr), (''scale'', fs), (''probeLength'', fl)]
            | TelematicsDisplay \<Rightarrow> [(''position'', dp), (''rotation'', dr), (''size'', ds)]
            | Logo \<Rightarrow>
                [(''position'', lp), (''rotation'', lr), (''scale'', ls), (''offsetZ'', lo),
                 (''visible'', lv)]))))))))))))))))"

text \<open>
  \<open>now\<close> is the clock when the document is requested, \<open>now'\<close> the clock when the mirror
  writes its timestamp.
\<close>

definition reset_failed :: "studio \<Rightarrow> studio" where
  "reset_failed st = st\<lparr>alerts := alerts st @ [''Reset failed. Check console for details.'']\<rparr>"

definition resetToDefault ::
  "network \<Rightarrow> (json \<Rightarrow> string) \<Rightarrow> int \<Rightarrow> int \<Rightarrow> object_key \<Rightarrow> studio \<Rightarrow> studio" where
  "resetToDefault net render now now' obj st =
     (case net (fresh_url now) of
        NetworkError \<Rightarrow> reset_failed st
      | Response ok statusText body \<Rightarrow>
          (case body of
             None \<Rightarrow> reset_failed st
           | Some cfg \<Rightarrow>
               (case default_literal cfg of
                  Inl e \<Rightarrow> reset_failed st
                | Inr defaultConfig \<Rightarrow>
                    syncToStorage render now' (storage_key obj) (VObj (defaultConfig obj))
                      (st\<lparr>transforms := (transforms st)(obj := defaultConfig obj)\<rparr>))))"

subsection \<open>Runs of the editor\<close>

text \<open>
  What runs in the editor's own context: updates, resets and the connection poll, each
  with the clock readings and the network of its moment.
\<close>

datatype editor_op =
    Update int object_key jsobj
  | Reset network int int object_key
  | Poll int

fun editor_step :: "(json \<Rightarrow> string) \<Rightarrow> studio \<Rightarrow> editor_op \<Rightarrow> studio" where
  "editor_step render st (Update now obj updates) = updateTransform render now obj updates st"
| "editor_step render st (Reset net now now' obj) = resetToDefault net render now now' obj st"
| "editor_step render st (Poll now) = checkConnection now st"

definition editor_run :: "(json \<Rightarrow> string) \<Rightarrow> editor_op list \<Rightarrow> studio \<Rightarrow> studio" where
  "editor_run render ops st = foldl (editor_step render) st ops"

text \<open>
  The updates and resets are the editor's writes; a run of writes alone is what
  \<open>filter is_write\<close> leaves of a run, and \<open>filter is_poll\<close> leaves its polls.
\<close>

fun is_write :: "editor_op \<Rightarrow> bool" where
  "is_write (Update now obj updates) = True"
| "is_write (Reset net now now' obj) = True"
| "is_write (Poll now) = False"

fun is_poll :: "editor_op \<Rightarrow> bool" where
  "is_poll (Poll now) = True"
| "is_poll op = False"

section \<open>Angles: degrees at the controls, radians in the store\<close>

text \<open>
  Arithmetic on numbers is IEEE 754 binary64 with round to nearest, ties to even. A
  real \<open>x\<close> is rounded to the nearest multiple of its quantum, the power of two whose
  exponent is the binary exponent of \<open>x\<close> less 52, and never less than -1074, the
  exponent of the smallest subnormal. On a tie the even multiple is taken.
\<close>

definition round_ties_even :: "real \<Rightarrow> int" where
  "round_ties_even y =
     (let f = \<lfloor>y\<rfloor>
      in if y - of_int f < 1 / 2 then f
         else if 1 / 2 < y - of_int f then f + 1
         else if even f then f else f + 1)"

definition quantum_exp :: "real \<Rightarrow> int" where
  "quantum_exp x = max (\<lfloor>log 2 \<bar>x\<bar>\<rfloor> - 52) (- 1074)"

definition round_double :: "real \<Rightarrow> real" where
  "round_double x =
     (if x = 0 then 0
      else of_int (round_ties_even (x / 2 powi quantum_exp x)) * 2 powi quantum_exp x)"

text \<open>A rounded value of magnitude \<open>2 ^ 1024\<close> or more overflows to an infinity.\<close>

definition double_of_real :: "real \<Rightarrow> jsnum" where
  "double_of_real x =
     (let r = round_double x
      in if 2 ^ 1024 \<le> r then PosInfinity
         else if r \<le> - (2 ^ 1024) then NegInfinity
         else Finite r)"

fun js_times :: "jsnum \<Rightarrow> jsnum \<Rightarrow> jsnum" where
  "js_times (Finite a) (Finite b) = double_of_real (a * b)"
| "js_times NaN y = NaN"
| "js_times x NaN = NaN"
| "js_times (Finite a) PosInfinity =
     (if a = 0 then NaN else if 0 < a then PosInfinity else NegInfinity)"
| "js_times (Finite a) NegInfinity =
     (if a = 0 then NaN else if 0 < a then NegInfinity else PosInfinity)"
| "js_times PosInfinity (Finite b) =
     (if b = 0 then NaN else if 0 < b then PosInfinity else NegInfinity)"
| "js_times NegInfinity (Finite b) =
     (if b = 0 then NaN else if 0 < b then NegInfinity else PosInfinity)"
| "js_times PosInfinity PosInfinity = PosInfinity"
| "js_times PosInfinity NegInfinity = NegInfinity"
| "js_times NegInfinity PosInfinity = NegInfinity"
| "js_times NegInfinity NegInfinity = PosInfinity"

text \<open>
  \<open>Math.PI\<close> is the double \<open>0x400921FB54442D18\<close>, that is \<open>884279719003555 / 2 ^ 48\<close>.
  \<open>Math.PI / 180\<close> and \<open>180 / Math.PI\<close> are quotients of finite non-zero doubles,
  rounded.
\<close>

definition MATH_PI :: real where
  "MATH_PI = 884279719003555 / 281474976710656"

definition DEG_TO_RAD :: jsnum where
  "DEG_TO_RAD = double_of_real (MATH_PI / 180)"

definition RAD_TO_DEG :: jsnum where
  "RAD_TO_DEG = double_of_real (180 / MATH_PI)"

text \<open>
  \<open>updateRotation\<close> stores \<open>value * (Math.PI / 180)\<close>; the rotation sliders show
  \<open>transform.rotation[i] * (180 / Math.PI)\<close>.
\<close>

definition rotation_to_radians :: "jsnum \<Rightarrow> jsnum" where
  "rotation_to_radians v = js_times v DEG_TO_RAD"

definition rotation_to_degrees :: "jsnum \<Rightarrow> jsnum" where
  "rotation_to_degrees r = js_times r RAD_TO_DEG"

section \<open>Sample data\<close>

definition num :: "real \<Rightarrow> jsval" where
  "num r = VNum (Finite r)"

definition shipped_logo :: jsval where
  "shipped_logo = VObj
     [(''position'', VArr [num 0, num 2.25, num 5.35]),
      (''rotation'', VArr [num 0, num 0, num 0.017453292519943295]),
      (''scale'', VArr [num 1, num 0.96]),
      (''offsetZ'', num (- 0.5)),
      (''visible'', VBool True)]"

definition shipped_doc :: jsval where
  "shipped_doc = VObj
     [(''telematicsDisplay'', VObj
        [(''position'', VArr [num 0, num 1.5, num 2]),
         (''rotation'', VArr [num 0, num 0, num 0]),
         (''size'', VArr [num 1.2, num 0.8])]),
      (''fuelSensor'', VObj
        [(''position'', VArr [num 0.4, num (- 0.6), num 1]),
         (''rotation'', VArr [num 0, num 0, num 0]),
         (''scale'', num 1),
         (''probeLength'', num 0.5)]),
      (''truck'', VObj
        [(''position'', VArr [num 1.1, num (- 1.1), num (- 5.3)]),
         (''rotation'', VArr [num 0, num 3.141592653589793, num 0]),
         (''scale'', VArr [num 1.5, num 1.5, num 1.5])]),
      (''logo'', shipped_logo)]"

text \<open>A session in which every object was moved away from the shipped values.\<close>

definition edited_studio :: studio where
  "edited_studio =
     \<lparr>transforms = (\<lambda>obj. case obj of
          Truck \<Rightarrow> [(''position'', VArr [num 9, num 9, num 9]),
                    (''rotation'', VArr [num 0, num 0, num 0]),
                    (''scale'', VArr [num 2, num 2, num 2])]
        | FuelSensor \<Rightarrow> [(''position'', VArr [num 9, num 9, num 9]),
                         (''rotation'', VArr [num 0, num 0, num 0]),
                         (''scale'', num 3), (''probeLength'', num 0.1)]
        | TelematicsDisplay \<Rightarrow> [(''position'', VArr [num 9, num 9, num 9]),
                                (''rotation'', VArr [num 0, num 0, num 0]),
                                (''size'', VArr [num 4, num 4])]
        | Logo \<Rightarrow> [(''position'', VArr [num 9, num 9, num 9]),
                   (''rotation'', VArr [num 0, num 0, num 0]),
                   (''scale'', VArr [num 2, num 2]),
                   (''offsetZ'', num 0), (''visible'', VBool False)]),
      connectionStatus = Disconnected,
      localStorage = Map.empty,
      events = [],
      alerts = [],
      href = ''http://localhost:3000/controller-studio''\<rparr>"

text \<open>The network that answers every request with the shipped document.\<close>

definition shipped_network :: network where
  "shipped_network = (\<lambda>u. Response True ''OK'' (Some shipped_doc))"

text \<open>
  A logo whose x position is NaN, as the logo panel's number field produces when it is
  emptied (\<open>parseFloat('')\<close>), and what comes back for it from an exported document.
\<close>

definition nan_logo :: jsval where
  "nan_logo = VObj
     [(''position'', VArr [VNum NaN, num 2.25, num 5.35]),
      (''rotation'', VArr [num 0, num 0, num 0]),
      (''scale'', VArr [num 1, num 0.96]),
      (''offsetZ'', num (- 0.5)),
      (''visible'', VBool True)]"

definition null_logo :: jsval where
  "null_logo = VObj
     [(''position'', VArr [VNull, num 2.25, num 5.35]),
      (''rotation'', VArr [num 0, num 0, num 0]),
      (''scale'', VArr [num 1, num 0.96]),
      (''offsetZ'', num (- 0.5)),
      (''visible'', VBool True)]"

text \<open>
  A session whose indicator shows connected while local storage no longer holds the
  main page's timestamp (the key was removed after the last successful poll).
\<close>

definition connected_without_timestamp :: studio where
  "connected_without_timestamp = edited_studio\<lparr>connectionStatus := Connected\<rparr>"

text \<open>
  A network in which the plain config URL is answered with an earlier copy of the
  document (the logo hidden), while any other URL reaches the shipped document.
\<close>

definition earlier_logo :: jsval where
  "earlier_logo = VObj
     [(''position'', VArr [num 0, num 2.25, num 5.35]),
      (''rotation'', VArr [num 0, num 0, num 0]),
      (''scale'', VArr [num 1, num 1]),
      (''offsetZ'', num 0),
      (''visible'', VBool False)]"

definition earlier_doc :: jsval where
  "earlier_doc = VObj [(''logo'', earlier_logo)]"

definition cached_network :: network where
  "cached_network =
     (\<lambda>u. if u = CONFIG_PATH then Response True ''OK'' (Some earlier_doc)
          else Response True ''OK'' (Some shipped_doc))"

section \<open>Objects and spreads\<close>

lemma map_of_obj_set: "map_of (obj_set kvs k v) = (map_of kvs)(k \<mapsto> v)"
  by (induction kvs) (auto simp: fun_eq_iff)

lemma map_of_spread_into:
  "distinct (map fst b) \<Longrightarrow> map_of (spread_into a b) = map_of a ++ map_of b"
proof (induction b arbitrary: a)
  case Nil
  then show ?case by (simp add: spread_into_def)
next
  case (Cons p b)
  obtain k v where p: "p = (k, v)" by (cases p)
  have none: "map_of b k = None" using Cons.prems p by (simp add: map_of_eq_None_iff)
  have "spread_into a (p # b) = spread_into (obj_set a k v) b"
    by (simp add: spread_into_def p)
  then have "map_of (spread_into a (p # b)) = (map_of a)(k \<mapsto> v) ++ map_of b"
    using Cons by (simp add: map_of_obj_set)
  also have "\<dots> = map_of a ++ map_of (p # b)"
    using none by (auto simp: p fun_eq_iff map_add_def split: option.splits)
  finally show ?case .
qed

lemma obj_get_spread_into:
  "distinct (map fst b) \<Longrightarrow>
   obj_get (spread_into a b) f = (case map_of b f of None \<Rightarrow> obj_get a f | Some v \<Rightarrow> v)"
  by (simp add: obj_get_def map_of_spread_into map_add_def split: option.splits)

lemma map_of_by_keys:
  "map_of kvs f = (if f \<in> fst ` set kvs then Some (obj_get kvs f) else None)"
  by (cases "map_of kvs f") (auto simp: obj_get_def map_of_eq_None_iff dest: map_of_SomeD intro: rev_image_eqI)

section \<open>JSON round trip of values\<close>

lemma parse_stringify_fields:
  "(\<And>p. p \<in> set kvs \<Longrightarrow> map_option JSON_parse (JSON_stringify (snd p)) = Some (snd p)) \<Longrightarrow>
   map (\<lambda>p. (fst p, JSON_parse (snd p)))
     (defined_fields
       (map (\<lambda>p. (fst p, JSON_stringify (snd p))) kvs)) = kvs"
proof (induction kvs)
  case Nil
  then show ?case by (simp add: defined_fields_def map_filter_simps)
next
  case (Cons p kvs)
  have "map_option JSON_parse (JSON_stringify (snd p)) = Some (snd p)"
    using Cons.prems by simp
  then obtain j where "JSON_stringify (snd p) = Some j" "JSON_parse j = snd p" by auto
  then show ?case using Cons by (simp add: defined_fields_def map_filter_simps)
qed

lemma stringify_parse:
  "json_representable v \<Longrightarrow> map_option JSON_parse (JSON_stringify v) = Some v"
proof (induction v)
  case (VNum n)
  then show ?case by (cases n) auto
next
  case (VArr xs)
  have "map (\<lambda>x. JSON_parse (case JSON_stringify x of None \<Rightarrow> JNull | Some j \<Rightarrow> j)) xs
          = map (\<lambda>x. x) xs"
    using VArr by (intro map_cong refl) (fastforce simp: list_all_iff)
  then show ?case by (simp add: comp_def)
next
  case (VObj kvs)
  have "map_option JSON_parse (JSON_stringify (snd p)) = Some (snd p)" if "p \<in> set kvs" for p
  proof -
    have "snd p \<in> Basic_BNFs.snds p" by (cases p) simp
    moreover have "json_representable (snd p)" using VObj.prems that by (simp add: list_all_iff)
    ultimately show ?thesis using VObj.IH that by blast
  qed
  then show ?case by (simp add: parse_stringify_fields)
qed auto

lemma map_of_stringify_fields:
  "map_of kvs k = Some v \<Longrightarrow> JSON_stringify v = Some j \<Longrightarrow>
   map_of (map (\<lambda>p. (fst p, JSON_parse (snd p)))
     (defined_fields
       (map (\<lambda>p. (fst p, JSON_stringify (snd p))) kvs))) k = Some (JSON_parse j)"
  by (induction kvs) (auto simp: defined_fields_def map_filter_simps split: option.splits if_splits)

section \<open>Partial updates\<close>

lemma transforms_updateTransform:
  "transforms (updateTransform render now obj U st) =
     (transforms st)(obj := spread_into (transforms st obj) U)"
  by (simp add: updateTransform_def Let_def)

text \<open>
  Claim C2. After \<open>updateTransform obj U\<close> the transform of \<open>obj\<close> has, for every field
  name, the value \<open>U\<close> gives it when \<open>U\<close> names the field (an array is taken whole), and
  the value it had before otherwise. In particular an update of the fuel sensor's
  \<open>scale\<close> to 2 followed by an update of its \<open>probeLength\<close> to 0.8 leaves both in
  place. \<open>U\<close> is an object, so no property name occurs twice in it.
\<close>

theorem update_merges_fields:
  assumes "distinct (map fst U)"
  shows "(\<forall>f. obj_get (transforms (updateTransform render now obj U st) obj) f =
            (case map_of U f of None \<Rightarrow> obj_get (transforms st obj) f | Some v \<Rightarrow> v)) \<and>
         obj_get (transforms
            (updateTransform render t2 FuelSensor [(''probeLength'', VNum (Finite 0.8))]
              (updateTransform render t1 FuelSensor [(''scale'', VNum (Finite 2))] st))
            FuelSensor) ''scale'' = VNum (Finite 2) \<and>
         obj_get (transforms
            (updateTransform render t2 FuelSensor [(''probeLength'', VNum (Finite 0.8))]
              (updateTransform render t1 FuelSensor [(''scale'', VNum (Finite 2))] st))
            FuelSensor) ''probeLength'' = VNum (Finite 0.8)"
  using assms by (simp add: transforms_updateTransform obj_get_spread_into)

text \<open>
  The theorem at a concrete update: moving the edited fuel sensor replaces its position
  array and keeps its probe length.
\<close>

theorem update_merges_fields_witness:
  "distinct (map fst [(''position'', VArr [num 1, num 2, num 3])]) \<and>
   obj_get (transforms
      (updateTransform (\<lambda>j. ''{}'') 1700000000000 FuelSensor
         [(''position'', VArr [num 1, num 2, num 3])] edited_studio) FuelSensor) ''position''
     = VArr [num 1, num 2, num 3] \<and>
   obj_get (transforms
      (updateTransform (\<lambda>j. ''{}'') 1700000000000 FuelSensor
         [(''position'', VArr [num 1, num 2, num 3])] edited_studio) FuelSensor) ''probeLength''
     = num 0.1"
proof -
  have d: "distinct (map fst [(''position'', VArr [num 1, num 2, num 3])])" by simp
  have "\<forall>f. obj_get (transforms
      (updateTransform (\<lambda>j. ''{}'') 1700000000000 FuelSensor
         [(''position'', VArr [num 1, num 2, num 3])] edited_studio) FuelSensor) f =
     (case map_of [(''position'', VArr [num 1, num 2, num 3])] f of
        None \<Rightarrow> obj_get (transforms edited_studio FuelSensor) f | Some v \<Rightarrow> v)"
    using update_merges_fields[OF d] by blast
  then show ?thesis by (simp add: edited_studio_def obj_get_def)
qed

section \<open>Export and import of one object\<close>

lemma readConfig_serving: "readConfig (serving doc) = Inr (JSON_parse doc)"
  by (simp add: readConfig_def serving_def)

lemma has_shape_truthy: "has_shape obj T \<Longrightarrow> truthy T"
  by (cases T) auto

text \<open>
  Claim C3, amended. For every object key, every transform \<open>T\<close> of the key's shape whose
  numbers are all finite, and every document that is a JSON object: exporting \<open>T\<close> and
  importing the key from the exported document gives \<open>T\<close> back.
\<close>

theorem export_import_roundtrip:
  assumes "has_shape obj T" and "json_representable T" and "readConfig net = Inr (VObj D)"
  shows "export_then_import net (key_name obj) T = Inr T"
proof -
  from assms(2) obtain j where j: "JSON_stringify T = Some j" "JSON_parse j = T"
    using stringify_parse[of T] by auto
  let ?doc = "JObj (defined_fields
       (map (\<lambda>p. (fst p, JSON_stringify (snd p))) (obj_set D (key_name obj) T)))"
  have 1: "exportToConfig net True (key_name obj) T = Inr (Some ?doc)"
    using assms(3) by (simp add: exportToConfig_def bind_err_def)
  have "map_of (obj_set D (key_name obj) T) (key_name obj) = Some T"
    by (simp add: map_of_obj_set)
  then have "map_of (map (\<lambda>p. (fst p, JSON_parse (snd p)))
     (defined_fields
       (map (\<lambda>p. (fst p, JSON_stringify (snd p))) (obj_set D (key_name obj) T)))) (key_name obj)
       = Some (JSON_parse j)"
    using j(1) by (rule map_of_stringify_fields)
  then have 2: "importFromConfig (serving ?doc) (key_name obj) = Inr T"
    using has_shape_truthy[OF assms(1)] j(2)
    by (simp add: importFromConfig_def readConfig_serving bind_err_def obj_get_def)
  from 1 2 show ?thesis by (simp add: export_then_import_def bind_err_def)
qed

text \<open>The shipped logo survives the round trip through the shipped document.\<close>

theorem export_import_roundtrip_witness:
  "has_shape Logo shipped_logo \<and> json_representable shipped_logo \<and>
   readConfig shipped_network = Inr shipped_doc \<and>
   export_then_import shipped_network (key_name Logo) shipped_logo = Inr shipped_logo"
proof -
  have 1: "has_shape Logo shipped_logo"
    by (simp add: shipped_logo_def num_def obj_get_def) 
  have 2: "json_representable shipped_logo"
    by (simp add: shipped_logo_def num_def)
  have 3: "readConfig shipped_network = Inr shipped_doc"
    by (simp add: readConfig_def shipped_network_def)
  show ?thesis
    using 1 2 3 export_import_roundtrip[OF 1 2 3[unfolded shipped_doc_def]] by simp
qed

text \<open>
  Claim C3 as stated fails for a transform of the logo's shape that holds NaN: the
  exported document holds null in its place, and null is what the import returns.
\<close>

theorem export_import_nan_counterexample:
  "has_shape Logo nan_logo \<and>
   export_then_import shipped_network (key_name Logo) nan_logo = Inr null_logo \<and>
   null_logo \<noteq> nan_logo"
  by (simp add: nan_logo_def null_logo_def num_def obj_get_def export_then_import_def
      exportToConfig_def importFromConfig_def readConfig_def shipped_network_def shipped_doc_def
      serving_def bind_err_def defined_fields_def map_filter_simps)

text \<open>
  Claim C5. When the document is a JSON object without the key of \<open>obj\<close>, importing
  \<open>obj\<close> fails with KeyNotFound, and pressing IMPORT on the panel of \<open>obj\<close> leaves the
  config of every panel as it was.
\<close>

theorem import_missing_key:
  assumes "readConfig net = Inr (VObj D)" and "map_of D (key_name obj) = None"
  shows "importFromConfig net (key_name obj) = Inl (KeyNotFound (key_name obj)) \<and>
         (\<forall>other. config (press_import net obj ps other) = config (ps other))"
  using assms
  by (simp add: importFromConfig_def bind_err_def obj_get_def press_import_def handleImport_def)

text \<open>A document that holds only the logo, and the import of the truck from it.\<close>

theorem import_missing_key_witness:
  "readConfig (\<lambda>u. Response True ''OK'' (Some earlier_doc)) = Inr earlier_doc \<and>
   map_of [(''logo'', earlier_logo)] (key_name Truck) = None \<and>
   importFromConfig (\<lambda>u. Response True ''OK'' (Some earlier_doc)) (key_name Truck)
     = Inl (KeyNotFound ''truck'') \<and>
   config (press_import (\<lambda>u. Response True ''OK'' (Some earlier_doc)) Truck
      (\<lambda>obj. \<lparr>config = shipped_logo, exported = False, imported = False, alerted = []\<rparr>) Truck)
     = shipped_logo"
proof -
  have 1: "readConfig (\<lambda>u. Response True ''OK'' (Some earlier_doc)) = Inr earlier_doc"
    by (simp add: readConfig_def)
  have 2: "map_of [(''logo'', earlier_logo)] (key_name Truck) = None" by simp
  show ?thesis
    using 1 2 import_missing_key[OF 1[unfolded earlier_doc_def] 2,
        of "\<lambda>obj. \<lparr>config = shipped_logo, exported = False, imported = False, alerted = []\<rparr>"]
    by (simp add: earlier_doc_def)
qed

section \<open>Reset of one object\<close>

lemma reset_transforms_cases:
  "transforms (resetToDefault net render now now' obj st) =
     (case net (fresh_url now) of
        Response ok statusText (Some cfg) \<Rightarrow>
          (case default_literal cfg of
             Inr dc \<Rightarrow> (transforms st)(obj := dc obj)
           | Inl e \<Rightarrow> transforms st)
      | _ \<Rightarrow> transforms st)"
  by (simp add: resetToDefault_def reset_failed_def syncToStorage_def Let_def
      split: fetch_result.splits option.splits sum.splits)

lemma four_object_shape_shipped: "four_object_shape shipped_doc"
  by (simp add: shipped_doc_def shipped_logo_def all_keys_def num_def obj_get_def)

text \<open>
  Claim C6. Two resets of the same object in a row, the second request answered as the
  first was, leave the store as the first reset left it.
\<close>

theorem reset_idempotent:
  assumes "net2 (fresh_url t2) = net1 (fresh_url t1)"
  shows "transforms (resetToDefault net2 render t2 t2' obj (resetToDefault net1 render t1 t1' obj st))
           = transforms (resetToDefault net1 render t1 t1' obj st)"
  using assms
  by (simp add: reset_transforms_cases split: fetch_result.splits option.splits sum.splits)

text \<open>
  Resetting the edited logo twice against the shipped document: the second reset changes
  nothing, and the logo is visible again after either.
\<close>

theorem reset_idempotent_witness:
  "shipped_network (fresh_url 1700000002000) = shipped_network (fresh_url 1700000001000) \<and>
   transforms (resetToDefault shipped_network (\<lambda>j. ''{}'') 1700000002000 1700000002050 Logo
      (resetToDefault shipped_network (\<lambda>j. ''{}'') 1700000001000 1700000001050 Logo edited_studio))
     = transforms
        (resetToDefault shipped_network (\<lambda>j. ''{}'') 1700000001000 1700000001050 Logo edited_studio) \<and>
   obj_get (transforms
      (resetToDefault shipped_network (\<lambda>j. ''{}'') 1700000001000 1700000001050 Logo edited_studio)
      Logo) ''visible'' = VBool True"
proof -
  have h: "shipped_network (fresh_url 1700000002000) = shipped_network (fresh_url 1700000001000)"
    by (simp add: shipped_network_def)
  have v: "obj_get (transforms
      (resetToDefault shipped_network (\<lambda>j. ''{}'') 1700000001000 1700000001050 Logo edited_studio)
      Logo) ''visible'' = VBool True"
    by (simp add: reset_transforms_cases shipped_network_def shipped_doc_def shipped_logo_def
        default_literal_def array2_def field2_def bind_err_def obj_get_def)
  show ?thesis
    using h v reset_idempotent[where ?net2.0 = shipped_network and ?net1.0 = shipped_network
        and ?t2.0 = 1700000002000 and ?t1.0 = 1700000001000]
    by simp
qed

lemma copy_tuple: "is_tuple n v \<Longrightarrow> bind_err (spread_array v) (\<lambda>xs. Inr (VArr xs)) = Inr v"
  by (cases v) (auto simp: bind_err_def)

lemma field2_object:
  "obj_get d a = VObj sec \<Longrightarrow> field2 (VObj d) a b = Inr (obj_get sec b)"
  by (simp add: field2_def bind_err_def)

lemma array2_object:
  "obj_get d a = VObj sec \<Longrightarrow> is_tuple n (obj_get sec b) \<Longrightarrow>
   array2 (VObj d) a b = Inr (obj_get sec b)"
  using copy_tuple[of n "obj_get sec b"]
  by (simp add: array2_def field2_object) (simp add: bind_err_def)

lemma has_shape_object: "has_shape obj v \<Longrightarrow> \<exists>sec. v = VObj sec"
  by (cases v) auto

text \<open>
  On a document of the four-object shape the literal of \<open>resetToDefault\<close> is built
  without error and holds, for each object, the fields of the document's section.
\<close>

lemma default_literal_shape:
  assumes "four_object_shape (VObj d)"
  shows "\<exists>dc. default_literal (VObj d) = Inr dc \<and>
          (\<forall>obj. \<exists>sec. obj_get d (key_name obj) = VObj sec \<and> map_of (dc obj) = map_of sec)"
proof -
  from assms have sh: "has_shape Truck (obj_get d ''truck'')"
      "has_shape FuelSensor (obj_get d ''fuelSensor'')"
      "has_shape TelematicsDisplay (obj_get d ''telematicsDisplay'')"
      "has_shape Logo (obj_get d ''logo'')"
    by (simp_all add: all_keys_def)
  then obtain st sf sd sl where sec: "obj_get d ''truck'' = VObj st"
      "obj_get d ''fuelSensor'' = VObj sf" "obj_get d ''telematicsDisplay'' = VObj sd"
      "obj_get d ''logo'' = VObj sl"
    by (meson has_shape_object)
  note a = array2_object[OF sec(1)] array2_object[OF sec(2)] array2_object[OF sec(3)]
    array2_object[OF sec(4)]
  note f = field2_object[OF sec(1)] field2_object[OF sec(2)] field2_object[OF sec(3)]
    field2_object[OF sec(4)]
  have t: "is_tuple 3 (obj_get st ''position'')" "is_tuple 3 (obj_get st ''rotation'')"
      "is_tuple 3 (obj_get st ''scale'')"
    and kt: "fst ` set st = {''position'', ''rotation'', ''scale''}"
    using sh(1) by (simp_all add: sec)
  have fu: "is_tuple 3 (obj_get sf ''position'')" "is_tuple 3 (obj_get sf ''rotation'')"
    and kf: "fst ` set sf = {''position'', ''rotation'', ''scale'', ''probeLength''}"
    using sh(2) by (simp_all add: sec)
  have di: "is_tuple 3 (obj_get sd ''position'')" "is_tuple 3 (obj_get sd ''rotation'')"
      "is_tuple 2 (obj_get sd ''size'')"
    and kd: "fst ` set sd = {''position'', ''rotation'', ''size''}"
    using sh(3) by (simp_all add: sec)
  have lo: "is_tuple 3 (obj_get sl ''position'')" "is_tuple 3 (obj_get sl ''rotation'')"
      "is_tuple 2 (obj_get sl ''scale'')"
    and kl: "fst ` set sl = {''position'', ''rotation'', ''scale'', ''offsetZ'', ''visible''}"
    using sh(4) by (simp_all add: sec)
  let ?dc = "\<lambda>obj. case obj of
              Truck \<Rightarrow> [(''position'', obj_get st ''position''), (''rotation'', obj_get st ''rotation''),
                 (''scale'', obj_get st ''scale'')]
            | FuelSensor \<Rightarrow>
                [(''position'', obj_get sf ''position''), (''rotation'', obj_get sf ''rotation''),
                 (''scale'', obj_get sf ''scale''), (''probeLength'', obj_get sf ''probeLength'')]
            | TelematicsDisplay \<Rightarrow> [(''position'', obj_get sd ''position''),
                 (''rotation'', obj_get sd ''rotation''), (''size'', obj_get sd ''size'')]
            | Logo \<Rightarrow>
                [(''position'', obj_get sl ''position''), (''rotation'', obj_get sl ''rotation''),
                 (''scale'', obj_get sl ''scale''), (''offsetZ'', obj_get sl ''offsetZ''),
                 (''visible'', obj_get sl ''visible'')]"
  have 1: "default_literal (VObj d) = Inr ?dc"
    unfolding default_literal_def
    by (simp only: a(1)[OF t(1)] a(1)[OF t(2)] a(1)[OF t(3)] a(2)[OF fu(1)] a(2)[OF fu(2)]
        a(3)[OF di(1)] a(3)[OF di(2)] a(3)[OF di(3)] a(4)[OF lo(1)] a(4)[OF lo(2)] a(4)[OF lo(3)]
        f bind_err_def sum.case)
  have 2: "\<exists>sec. obj_get d (key_name obj) = VObj sec \<and> map_of (?dc obj) = map_of sec" for obj
  proof (cases obj)
    case Truck
    have "map_of (?dc Truck) = map_of st"
      by (rule ext) (simp add: map_of_by_keys[of st] kt)
    then show ?thesis using Truck sec by simp
  next
    case FuelSensor
    have "map_of (?dc FuelSensor) = map_of sf"
      by (rule ext) (simp add: map_of_by_keys[of sf] kf)
    then show ?thesis using FuelSensor sec by simp
  next
    case TelematicsDisplay
    have "map_of (?dc TelematicsDisplay) = map_of sd"
      by (rule ext) (simp add: map_of_by_keys[of sd] kd)
    then show ?thesis using TelematicsDisplay sec by simp
  next
    case Logo
    have "map_of (?dc Logo) = map_of sl"
      by (rule ext) (simp add: map_of_by_keys[of sl] kl)
    then show ?thesis using Logo sec by simp
  qed
  from 1 2 show ?thesis by blast
qed

text \<open>
  Claim C8. A reset of \<open>obj\<close> leaves the transform of every other object as it was; and
  when the request is answered with a document of the four-object shape, the transform
  of \<open>obj\<close> afterwards has exactly the fields of the document's section for \<open>obj\<close>, with
  their values, whatever it held before.
\<close>

theorem reset_replaces_only_target:
  "(\<forall>other. other \<noteq> obj \<longrightarrow>
      transforms (resetToDefault net render now now' obj st) other = transforms st other) \<and>
   (\<forall>ok statusText d. net (fresh_url now) = Response ok statusText (Some (VObj d)) \<and>
      four_object_shape (VObj d) \<longrightarrow>
      (\<exists>sec. obj_get d (key_name obj) = VObj sec \<and>
         map_of (transforms (resetToDefault net render now now' obj st) obj) = map_of sec))"
proof (intro conjI allI impI)
  fix other assume "other \<noteq> obj"
  then show "transforms (resetToDefault net render now now' obj st) other = transforms st other"
    by (simp add: reset_transforms_cases split: fetch_result.splits option.splits sum.splits)
next
  fix ok statusText d
  assume a: "net (fresh_url now) = Response ok statusText (Some (VObj d)) \<and> four_object_shape (VObj d)"
  then obtain dc where dc: "default_literal (VObj d) = Inr dc"
    "\<And>obj. \<exists>sec. obj_get d (key_name obj) = VObj sec \<and> map_of (dc obj) = map_of sec"
    using default_literal_shape[of d] by blast
  have "transforms (resetToDefault net render now now' obj st) obj = dc obj"
    using a dc(1) by (simp add: reset_transforms_cases)
  then show "\<exists>sec. obj_get d (key_name obj) = VObj sec \<and>
               map_of (transforms (resetToDefault net render now now' obj st) obj) = map_of sec"
    using dc(2)[of obj] by simp
qed

text \<open>
  Resetting the edited truck against the shipped document: the logo stays hidden as
  edited, and the truck is back at the document's position.
\<close>

theorem reset_replaces_only_target_witness:
  "Logo \<noteq> Truck \<and>
   transforms (resetToDefault shipped_network (\<lambda>j. ''{}'') 1700000001000 1700000001050 Truck
      edited_studio) Logo = transforms edited_studio Logo \<and>
   shipped_network (fresh_url 1700000001000) = Response True ''OK'' (Some shipped_doc) \<and>
   four_object_shape shipped_doc \<and>
   map_of (transforms (resetToDefault shipped_network (\<lambda>j. ''{}'') 1700000001000 1700000001050
      Truck edited_studio) Truck) ''position''
     = Some (VArr [num 1.1, num (- 1.1), num (- 5.3)])"
proof -
  have n: "shipped_network (fresh_url 1700000001000) = Response True ''OK'' (Some shipped_doc)"
    by (simp add: shipped_network_def)
  note r = reset_replaces_only_target[of Truck shipped_network "\<lambda>j. ''{}''" 1700000001000
      1700000001050 edited_studio]
  have 1: "transforms (resetToDefault shipped_network (\<lambda>j. ''{}'') 1700000001000 1700000001050
      Truck edited_studio) Logo = transforms edited_studio Logo"
    using r by blast
  obtain d where d: "shipped_doc = VObj d"
    by (simp add: shipped_doc_def)
  have "\<exists>sec. obj_get d (key_name Truck) = VObj sec \<and>
     map_of (transforms (resetToDefault shipped_network (\<lambda>j. ''{}'') 1700000001000 1700000001050
       Truck edited_studio) Truck) = map_of sec"
    using r n four_object_shape_shipped unfolding d by blast
  then have 2: "map_of (transforms (resetToDefault shipped_network (\<lambda>j. ''{}'') 1700000001000
      1700000001050 Truck edited_studio) Truck) ''position''
     = Some (VArr [num 1.1, num (- 1.1), num (- 5.3)])"
    using d by (auto simp: shipped_doc_def obj_get_def)
  show ?thesis using n 1 2 four_object_shape_shipped by simp
qed

section \<open>The mirror and the connection poll\<close>

lemma storage_syncToStorage:
  "localStorage (syncToStorage render now k v st) =
     (localStorage st)(k \<mapsto> (case JSON_stringify v of None \<Rightarrow> ''undefined'' | Some j \<Rightarrow> render j),
                       ''controller-update-timestamp'' \<mapsto> show_int now)"
  by (cases "JSON_stringify v") (simp_all add: syncToStorage_def Let_def)

lemma storage_key_not_polled: "storage_key obj \<noteq> ''last-main-page-update''"
  by (cases obj) simp_all

lemma poll_key_syncToStorage:
  "localStorage (syncToStorage render now (storage_key obj) v st) ''last-main-page-update''
     = localStorage st ''last-main-page-update''"
  using storage_key_not_polled[of obj] by (simp add: storage_syncToStorage)

lemma status_syncToStorage:
  "connectionStatus (syncToStorage render now k v st) = connectionStatus st"
  by (simp add: syncToStorage_def Let_def)

lemma editor_step_poll_key:
  "localStorage (editor_step render st op) ''last-main-page-update''
     = localStorage st ''last-main-page-update''"
proof (cases op)
  case (Update now obj updates)
  then show ?thesis by (simp add: updateTransform_def Let_def poll_key_syncToStorage)
next
  case (Reset net now now' obj)
  then show ?thesis
    by (simp add: resetToDefault_def reset_failed_def poll_key_syncToStorage
        split: fetch_result.splits option.splits sum.splits)
next
  case (Poll now)
  then show ?thesis by (simp add: checkConnection_def split: option.splits)
qed

lemma editor_run_poll_key:
  "localStorage (editor_run render ops st) ''last-main-page-update''
     = localStorage st ''last-main-page-update''"
  unfolding editor_run_def
  by (induction ops arbitrary: st) (simp_all add: editor_step_poll_key)

lemma status_checkConnection:
  "connectionStatus (checkConnection now st) =
     (case localStorage st ''last-main-page-update'' of
        None \<Rightarrow> connectionStatus st
      | Some s \<Rightarrow> if s = [] then connectionStatus st
                  else (case parseInt s of None \<Rightarrow> Disconnected
                        | Some t \<Rightarrow> if now - t < 5000 then Connected else Disconnected))"
  by (simp add: checkConnection_def split: option.splits)

text \<open>
  A write leaves the connection status alone. A poll's result depends only on the
  status before it and on what is stored under the polled key, so the status after a
  run is the status its polls alone would have produced.
\<close>

lemma editor_step_status_write:
  "is_write op \<Longrightarrow> connectionStatus (editor_step render st op) = connectionStatus st"
proof (cases op)
  case (Update now obj updates)
  then show ?thesis by (simp add: updateTransform_def Let_def status_syncToStorage)
next
  case (Reset net now now' obj)
  then show ?thesis
    by (simp add: resetToDefault_def reset_failed_def status_syncToStorage
        split: fetch_result.splits option.splits sum.splits)
next
  case (Poll now)
  assume "is_write op"
  with Poll show ?thesis by simp
qed

lemma editor_run_status_writes:
  "connectionStatus (editor_run render (filter is_write ops) st) = connectionStatus st"
  unfolding editor_run_def
  by (induction ops arbitrary: st) (simp_all add: editor_step_status_write)

lemma poll_after_writes:
  "connectionStatus (checkConnection now (editor_run render (filter is_write ops) st))
     = connectionStatus (checkConnection now st)"
  by (simp add: status_checkConnection editor_run_poll_key editor_run_status_writes
      split: option.splits)

lemma editor_run_status_polls_only:
  assumes "connectionStatus st = connectionStatus st'"
    and "localStorage st ''last-main-page-update'' = localStorage st' ''last-main-page-update''"
  shows "connectionStatus (editor_run render ops st)
           = connectionStatus (editor_run render (filter is_poll ops) st')"
  using assms unfolding editor_run_def
proof (induction ops arbitrary: st st')
  case Nil
  then show ?case by simp
next
  case (Cons op ops)
  show ?case
  proof (cases "is_poll op")
    case True
    then obtain now where op: "op = Poll now" by (cases op) auto
    have "connectionStatus (checkConnection now st) = connectionStatus (checkConnection now st')"
      using Cons.prems by (simp add: status_checkConnection split: option.splits)
    moreover have "localStorage (checkConnection now st) ''last-main-page-update''
        = localStorage (checkConnection now st') ''last-main-page-update''"
      using Cons.prems(2) editor_step_poll_key[of render st "Poll now"]
        editor_step_poll_key[of render st' "Poll now"] by simp
    ultimately show ?thesis using Cons.IH op by simp
  next
    case False
    then have w: "is_write op" by (cases op) auto
    have "connectionStatus (editor_step render st op) = connectionStatus st'"
      using Cons.prems(1) w by (simp add: editor_step_status_write)
    moreover have "localStorage (editor_step render st op) ''last-main-page-update''
        = localStorage st' ''last-main-page-update''"
      using Cons.prems(2) by (simp add: editor_step_poll_key)
    ultimately show ?thesis using Cons.IH False by simp
  qed
qed

lemma storage_key_not_timestamp: "storage_key obj \<noteq> ''controller-update-timestamp''"
  by (cases obj) simp_all

lemma syncToStorage_object:
  "\<exists>j. JSON_stringify (VObj props) = Some j \<and>
     localStorage (syncToStorage render now (storage_key obj) (VObj props) st) (storage_key obj)
       = Some (render j) \<and>
     localStorage (syncToStorage render now (storage_key obj) (VObj props) st)
       ''controller-update-timestamp'' = Some (show_int now) \<and>
     events (syncToStorage render now (storage_key obj) (VObj props) st)
       = events st @ [\<lparr>ev_key = storage_key obj, ev_newValue = Some (render j), ev_url = href st\<rparr>]"
  using storage_key_not_timestamp[of obj] by (simp add: syncToStorage_def Let_def)

text \<open>
  Every partial update writes the object's new transform to the object's storage slot,
  writes the timestamp, and dispatches one storage event with the key and the text.
\<close>

lemma update_mirrors:
  "\<exists>j. JSON_stringify (VObj (transforms (updateTransform render now obj U st) obj)) = Some j \<and>
     localStorage (updateTransform render now obj U st) (storage_key obj) = Some (render j) \<and>
     localStorage (updateTransform render now obj U st) ''controller-update-timestamp''
       = Some (show_int now) \<and>
     events (updateTransform render now obj U st)
       = events st @ [\<lparr>ev_key = storage_key obj, ev_newValue = Some (render j), ev_url = href st\<rparr>]"
  using syncToStorage_object[of "spread_into (transforms st obj) U" render now obj st]
  by (simp add: updateTransform_def Let_def)

text \<open>So does every reset that reads the document and builds its literal.\<close>

lemma reset_mirrors:
  assumes "net (fresh_url now) = Response ok statusText (Some cfg)"
    and "default_literal cfg = Inr dc"
  shows "\<exists>j. JSON_stringify (VObj (transforms (resetToDefault net render now now' obj st) obj)) = Some j \<and>
     localStorage (resetToDefault net render now now' obj st) (storage_key obj) = Some (render j) \<and>
     localStorage (resetToDefault net render now now' obj st) ''controller-update-timestamp''
       = Some (show_int now') \<and>
     events (resetToDefault net render now now' obj st)
       = events st @ [\<lparr>ev_key = storage_key obj, ev_newValue = Some (render j), ev_url = href st\<rparr>]"
proof -
  let ?st = "st\<lparr>transforms := (transforms st)(obj := dc obj)\<rparr>"
  have r: "resetToDefault net render now now' obj st
      = syncToStorage render now' (storage_key obj) (VObj (dc obj)) ?st"
    using assms by (simp add: resetToDefault_def)
  have t: "transforms (resetToDefault net render now now' obj st) obj = dc obj"
    unfolding r by (simp add: syncToStorage_def Let_def)
  show ?thesis
    unfolding t using syncToStorage_object[of "dc obj" render now' obj ?st]
    unfolding r by simp
qed

lemma storage_importConfig: "localStorage (snd (importConfig net now st)) = localStorage st"
  by (simp add: importConfig_def split: fetch_result.splits option.splits sum.splits)

lemma events_importConfig: "events (snd (importConfig net now st)) = events st"
  by (simp add: importConfig_def split: fetch_result.splits option.splits sum.splits)

text \<open>
  Claim C1 fails on the code for the import of the whole document. Importing the shipped
  document into the edited session succeeds and replaces the transforms (the truck is
  back at the shipped position), yet no storage slot and no timestamp is written and no
  storage event is dispatched.
\<close>

theorem import_skips_mirror:
  "fst (importConfig shipped_network 1700000000000 edited_studio) = True \<and>
   obj_get (transforms (snd (importConfig shipped_network 1700000000000 edited_studio)) Truck)
      ''position'' = VArr [num 1.1, num (- 1.1), num (- 5.3)] \<and>
   obj_get (transforms edited_studio Truck) ''position'' = VArr [num 9, num 9, num 9] \<and>
   localStorage (snd (importConfig shipped_network 1700000000000 edited_studio))
      (storage_key Truck) = None \<and>
   localStorage (snd (importConfig shipped_network 1700000000000 edited_studio))
      ''controller-update-timestamp'' = None \<and>
   events (snd (importConfig shipped_network 1700000000000 edited_studio)) = []"
proof -
  have "\<exists>t. config_literal shipped_doc = Inr t \<and>
     obj_get (t Truck) ''position'' = VArr [num 1.1, num (- 1.1), num (- 5.3)]"
    by (simp add: config_literal_def field2_def bind_err_def shipped_doc_def shipped_logo_def
        obj_get_def)
  then obtain t where t: "config_literal shipped_doc = Inr t"
    "obj_get (t Truck) ''position'' = VArr [num 1.1, num (- 1.1), num (- 5.3)]"
    by blast
  have i: "importConfig shipped_network 1700000000000 edited_studio
      = (True, edited_studio\<lparr>transforms := t\<rparr>)"
    using t(1) by (simp add: importConfig_def shipped_network_def)
  show ?thesis
    unfolding i using t(2) by (simp add: edited_studio_def obj_get_def)
qed

text \<open>
  Claim C10. The timestamp key the mirror writes and the four storage slots all differ
  from the key the poll reads. Hence, from every state: no run of the editor changes what
  is stored under the polled key; a run of updates and resets leaves the connection
  status as it was, and a poll after it gives what the poll would have given before it;
  and with polls in between, the status after the run is the status the polls alone
  would have produced, so no write of the editor ever makes the status connected.
\<close>

theorem mirror_never_touches_poll_key:
  "''controller-update-timestamp'' \<noteq> ''last-main-page-update'' \<and>
   (\<forall>obj. storage_key obj \<noteq> ''last-main-page-update'') \<and>
   localStorage (editor_run render ops st) ''last-main-page-update''
     = localStorage st ''last-main-page-update'' \<and>
   connectionStatus (editor_run render (filter is_write ops) st) = connectionStatus st \<and>
   connectionStatus (checkConnection now (editor_run render (filter is_write ops) st))
     = connectionStatus (checkConnection now st) \<and>
   connectionStatus (editor_run render ops st)
     = connectionStatus (editor_run render (filter is_poll ops) st)"
  using editor_run_status_polls_only[of st st render ops]
  by (simp add: storage_key_not_polled editor_run_poll_key editor_run_status_writes
      poll_after_writes)

text \<open>
  An update and a reset in a session where the main page left a stale timestamp: the
  timestamp is still there, the status is still disconnected, and so it is after the
  next poll.
\<close>

theorem mirror_never_touches_poll_key_witness:
  "localStorage (editor_run (\<lambda>j. ''{}'')
      [Update 1700000000000 Logo [(''visible'', VBool True)],
       Reset shipped_network 1700000001000 1700000001050 Truck]
      (edited_studio\<lparr>localStorage := [''last-main-page-update'' \<mapsto> ''1600000000000'']\<rparr>))
      ''last-main-page-update'' = Some ''1600000000000'' \<and>
   connectionStatus (editor_run (\<lambda>j. ''{}'')
      [Update 1700000000000 Logo [(''visible'', VBool True)],
       Reset shipped_network 1700000001000 1700000001050 Truck]
      (edited_studio\<lparr>localStorage := [''last-main-page-update'' \<mapsto> ''1600000000000'']\<rparr>))
     = Disconnected \<and>
   connectionStatus (checkConnection 1700000002000 (editor_run (\<lambda>j. ''{}'')
      [Update 1700000000000 Logo [(''visible'', VBool True)],
       Reset shipped_network 1700000001000 1700000001050 Truck]
      (edited_studio\<lparr>localStorage := [''last-main-page-update'' \<mapsto> ''1600000000000'']\<rparr>)))
     = Disconnected"
proof -
  let ?st = "edited_studio\<lparr>localStorage := [''last-main-page-update'' \<mapsto> ''1600000000000'']\<rparr>"
  let ?ops = "[Update 1700000000000 Logo [(''visible'', VBool True)],
       Reset shipped_network 1700000001000 1700000001050 Truck]"
  have f: "filter is_write ?ops = ?ops" by simp
  have p: "parseInt ''1600000000000'' = Some 1600000000000"
    by (simp add: parseInt_def is_white_def is_digit_in_def digit_of_def digits_value_def)
  have c: "connectionStatus (checkConnection 1700000002000 ?st) = Disconnected"
    by (simp add: status_checkConnection p)
  have s: "connectionStatus ?st = Disconnected" by (simp add: edited_studio_def)
  note t = mirror_never_touches_poll_key[of "\<lambda>j. ''{}''" ?ops ?st 1700000002000, unfolded f]
  have 1: "localStorage (editor_run (\<lambda>j. ''{}'') ?ops ?st) ''last-main-page-update''
      = Some ''1600000000000''"
    using t by simp
  have 2: "connectionStatus (editor_run (\<lambda>j. ''{}'') ?ops ?st) = Disconnected"
    using t s by simp
  have 3: "connectionStatus (checkConnection 1700000002000 (editor_run (\<lambda>j. ''{}'') ?ops ?st))
      = Disconnected"
    using t c by simp
  from 1 2 3 show ?thesis by simp
qed

text \<open>
  Claim C7, amended. When local storage holds a non-empty timestamp, the poll sets the
  status to connected exactly when the timestamp parses to a number less than 5000 ms
  before the current time, and to disconnected otherwise. When the timestamp is absent
  or empty the poll changes nothing: the status stays what it was.
\<close>

theorem poll_sets_status_when_timestamp_present:
  "(\<forall>s. localStorage st ''last-main-page-update'' = Some s \<and> s \<noteq> [] \<longrightarrow>
      (connectionStatus (checkConnection now st) = Connected
         \<longleftrightarrow> (\<exists>t. parseInt s = Some t \<and> now - t < 5000)) \<and>
      (connectionStatus (checkConnection now st) = Disconnected
         \<longleftrightarrow> \<not> (\<exists>t. parseInt s = Some t \<and> now - t < 5000))) \<and>
   (localStorage st ''last-main-page-update'' = None \<or>
    localStorage st ''last-main-page-update'' = Some [] \<longrightarrow> checkConnection now st = st)"
  by (auto simp: status_checkConnection checkConnection_def split: option.splits)

text \<open>A timestamp two seconds old gives connected; one five seconds old does not.\<close>

theorem poll_sets_status_when_timestamp_present_witness:
  "localStorage (edited_studio\<lparr>localStorage := [''last-main-page-update'' \<mapsto> ''1700000008000'']\<rparr>)
      ''last-main-page-update'' = Some ''1700000008000'' \<and>
   ''1700000008000'' \<noteq> [] \<and>
   parseInt ''1700000008000'' = Some 1700000008000 \<and>
   connectionStatus (checkConnection 1700000010000
      (edited_studio\<lparr>localStorage := [''last-main-page-update'' \<mapsto> ''1700000008000'']\<rparr>))
     = Connected \<and>
   connectionStatus (checkConnection 1700000013000
      (edited_studio\<lparr>localStorage := [''last-main-page-update'' \<mapsto> ''1700000008000'']\<rparr>))
     = Disconnected"
proof -
  let ?st = "edited_studio\<lparr>localStorage := [''last-main-page-update'' \<mapsto> ''1700000008000'']\<rparr>"
  have s: "localStorage ?st ''last-main-page-update'' = Some ''1700000008000''" by simp
  have p: "parseInt ''1700000008000'' = Some 1700000008000"
    by (simp add: parseInt_def is_white_def is_digit_in_def digit_of_def digits_value_def)
  have 1: "connectionStatus (checkConnection 1700000010000 ?st) = Connected"
    using poll_sets_status_when_timestamp_present[of ?st 1700000010000] s p by simp
  have 2: "connectionStatus (checkConnection 1700000013000 ?st) = Disconnected"
    using poll_sets_status_when_timestamp_present[of ?st 1700000013000] s p by simp
  show ?thesis using s p 1 2 by simp
qed

text \<open>
  Claim C7 as stated fails when the timestamp is absent: a session that shows connected
  and polls with no timestamp in storage still shows connected.
\<close>

theorem poll_without_timestamp_counterexample:
  "localStorage connected_without_timestamp ''last-main-page-update'' = None \<and>
   connectionStatus (checkConnection 1700000010000 connected_without_timestamp) = Connected \<and>
   connectionStatus (checkConnection 1700000010000 connected_without_timestamp) \<noteq> Disconnected"
  by (simp add: connected_without_timestamp_def edited_studio_def checkConnection_def)

section \<open>Requests for the document\<close>

lemma fresh_url_not_plain: "fresh_url now \<noteq> CONFIG_PATH"
  by (simp add: fresh_url_def CONFIG_PATH_def)

text \<open>\<open>readConfig\<close> asks for the same URL at every call, whatever the time.\<close>

lemma readConfig_same_request:
  "net CONFIG_PATH = net' CONFIG_PATH \<Longrightarrow> readConfig net = readConfig net'"
  by (simp add: readConfig_def)

text \<open>
  Claim C4 fails on the code for the reads made through \<open>readConfig\<close>. Where the plain
  URL is answered with an earlier copy of the document, the import of the logo returns
  the earlier logo, hidden, while the import of the whole document, which adds the time
  to its URL, sees the logo of the current document, visible.
\<close>

theorem readConfig_request_not_fresh:
  "importFromConfig cached_network (key_name Logo) = Inr earlier_logo \<and>
   obj_get (transforms (snd (importConfig cached_network 1700000000000 edited_studio)) Logo)
      ''visible'' = VBool True \<and>
   get_prop earlier_logo ''visible'' = Inr (VBool False)"
proof -
  have 1: "importFromConfig cached_network (key_name Logo) = Inr earlier_logo"
    by (simp add: importFromConfig_def readConfig_def cached_network_def earlier_doc_def
        earlier_logo_def bind_err_def obj_get_def)
  have n: "cached_network (fresh_url 1700000000000) = Response True ''OK'' (Some shipped_doc)"
    using fresh_url_not_plain[of 1700000000000] by (simp add: cached_network_def)
  have "\<exists>t. config_literal shipped_doc = Inr t \<and> obj_get (t Logo) ''visible'' = VBool True"
    by (simp add: config_literal_def field2_def bind_err_def shipped_doc_def shipped_logo_def
        obj_get_def)
  then obtain t where t: "config_literal shipped_doc = Inr t"
    "obj_get (t Logo) ''visible'' = VBool True"
    by blast
  have 2: "obj_get (transforms (snd (importConfig cached_network 1700000000000 edited_studio)) Logo)
      ''visible'' = VBool True"
    using n t by (simp add: importConfig_def)
  have 3: "get_prop earlier_logo ''visible'' = Inr (VBool False)"
    by (simp add: earlier_logo_def obj_get_def)
  from 1 2 3 show ?thesis by simp
qed

section \<open>Degrees to radians and back\<close>

lemma round_ties_even_error: "\<bar>of_int (round_ties_even y) - y\<bar> \<le> 1 / 2"
proof -
  have "of_int \<lfloor>y\<rfloor> \<le> y" "y < of_int \<lfloor>y\<rfloor> + 1" by linarith+
  then show ?thesis by (auto simp: round_ties_even_def Let_def)
qed

lemma quantum_le:
  assumes "x \<noteq> 0"
  shows "2 powi quantum_exp x / 2 \<le> \<bar>x\<bar> / 2 ^ 53 + 2 powi (- 1075)"
proof (cases "- 1074 \<le> \<lfloor>log 2 \<bar>x\<bar>\<rfloor> - 52")
  case True
  let ?L = "\<lfloor>log 2 \<bar>x\<bar>\<rfloor>"
  have "2 powr (of_int ?L) \<le> \<bar>x\<bar>"
    using assms le_log_iff[of 2 "\<bar>x\<bar>" "of_int ?L"] by simp
  then have l: "2 powi ?L \<le> \<bar>x\<bar>" by (simp add: powr_real_of_int')
  have "quantum_exp x = ?L - 52" using True by (simp add: quantum_exp_def)
  then have "(2::real) powi quantum_exp x = 2 powi ?L / 2 ^ 52"
    by (simp add: power_int_diff)
  then have "(2::real) powi quantum_exp x / 2 = 2 powi ?L / 2 ^ 53" by simp
  also have "\<dots> \<le> \<bar>x\<bar> / 2 ^ 53" using l by (simp add: divide_right_mono)
  also have "\<dots> \<le> \<bar>x\<bar> / 2 ^ 53 + 2 powi (- 1075)" by simp
  finally show ?thesis .
next
  case False
  then have "quantum_exp x = - 1074" by (simp add: quantum_exp_def)
  then have "(2::real) powi quantum_exp x / 2 = 2 powi (- 1074 - 1)"
    by (simp only: power_int_diff) simp
  then show ?thesis by simp
qed

lemma round_double_error:
  "\<bar>round_double x - x\<bar> \<le> \<bar>x\<bar> / 2 ^ 53 + 2 powi (- 1075)"
proof (cases "x = 0")
  case True
  then show ?thesis by (simp add: round_double_def)
next
  case False
  let ?q = "(2::real) powi quantum_exp x"
  have q: "0 < ?q" by simp
  have "round_double x - x = (of_int (round_ties_even (x / ?q)) - x / ?q) * ?q"
    using False q by (simp add: round_double_def field_simps)
  then have "\<bar>round_double x - x\<bar> = \<bar>of_int (round_ties_even (x / ?q)) - x / ?q\<bar> * ?q"
    using q by (simp add: abs_mult)
  also have "\<dots> \<le> (1 / 2) * ?q"
    using round_ties_even_error[of "x / ?q"] q by (intro mult_right_mono) auto
  also have "\<dots> = ?q / 2" by simp
  also have "\<dots> \<le> \<bar>x\<bar> / 2 ^ 53 + 2 powi (- 1075)" by (rule quantum_le[OF False])
  finally show ?thesis .
qed

lemma tiny: "(2::real) powi (- 1075) \<le> 1 / 10 ^ 16"
proof -
  have "(2::real) powi (- 1075) \<le> 2 powi (- 54)"
    by (rule power_int_increasing) auto
  also have "\<dots> \<le> 1 / 10 ^ 16" by (simp add: field_simps)
  finally show ?thesis .
qed

lemma round_double_within:
  assumes "\<bar>x\<bar> \<le> M" and "M \<le> 450"
  shows "\<bar>round_double x - x\<bar> \<le> 1 / 10000000000000"
proof -
  have "\<bar>x\<bar> / 2 ^ 53 \<le> 450 / 2 ^ 53" using assms by (simp add: divide_right_mono)
  also have "\<dots> \<le> 1 / 10000000000000 - 1 / 10 ^ 16" by (simp add: field_simps)
  finally have "\<bar>x\<bar> / 2 ^ 53 + 1 / 10 ^ 16 \<le> 1 / 10000000000000" by simp
  then show ?thesis using round_double_error[of x] tiny by linarith
qed

lemma finite_double:
  assumes "\<bar>round_double x\<bar> \<le> 1000"
  shows "double_of_real x = Finite (round_double x)"
proof -
  have "(1000::real) < 2 ^ 1024" by simp
  then have "\<not> 2 ^ 1024 \<le> round_double x" and "\<not> round_double x \<le> - (2 ^ 1024)"
    using assms by linarith+
  then show ?thesis by (simp only: double_of_real_def Let_def if_False)
qed

lemma abs_prod_le: "\<bar>x\<bar> \<le> A \<Longrightarrow> \<bar>y\<bar> \<le> B \<Longrightarrow> \<bar>x * y\<bar> \<le> A * B" for x y :: real
  by (simp add: abs_mult mult_mono)

text \<open>
  The model computes the doubles JavaScript prints as \<open>0.017453292519943295\<close> and
  \<open>57.29577951308232\<close> for the two factors, and takes 90 degrees to half of \<open>Math.PI\<close>
  and back to 90.
\<close>

lemma quantum_exp_eq:
  assumes "0 < x" and "2 powi k \<le> x" and "x < 2 powi (k + 1)" and "- 1022 \<le> k"
  shows "quantum_exp x = k - 52"
proof -
  have "\<lfloor>log 2 x\<rfloor> = k"
    using assms by (simp add: floor_log_eq_powr_iff powr_real_of_int' flip: of_int_add)
  then show ?thesis using assms by (simp add: quantum_exp_def)
qed

lemma DEG_TO_RAD_value: "DEG_TO_RAD = Finite (5030569068109113 / 2 ^ 58)"
proof -
  have q: "quantum_exp (MATH_PI / 180) = - 6 - 52"
    by (rule quantum_exp_eq) (simp_all add: MATH_PI_def)
  have "round_ties_even (MATH_PI / 180 / 2 powi (- 58)) = 5030569068109113"
    by (simp add: round_ties_even_def MATH_PI_def Let_def)
  then have "round_double (MATH_PI / 180) = 5030569068109113 / 2 ^ 58"
    using q by (simp add: round_double_def MATH_PI_def)
  then show ?thesis
    by (simp add: DEG_TO_RAD_def double_of_real_def Let_def)
qed

lemma RAD_TO_DEG_value: "RAD_TO_DEG = Finite (1007958012753983 / 2 ^ 44)"
proof -
  have q: "quantum_exp (180 / MATH_PI) = 5 - 52"
    by (rule quantum_exp_eq) (simp_all add: MATH_PI_def)
  have "round_ties_even (180 / MATH_PI / 2 powi (- 47)) = 8063664102031864"
    by (simp add: round_ties_even_def MATH_PI_def Let_def)
  then have "round_double (180 / MATH_PI) = 1007958012753983 / 2 ^ 44"
    using q by (simp add: round_double_def MATH_PI_def)
  then show ?thesis
    by (simp add: RAD_TO_DEG_def double_of_real_def Let_def)
qed

lemma ninety_to_radians: "rotation_to_radians (Finite 90) = Finite (884279719003555 / 2 ^ 49)"
proof -
  let ?x = "90 * (5030569068109113 / 2 ^ 58) :: real"
  have q: "quantum_exp ?x = 0 - 52"
    by (rule quantum_exp_eq) simp_all
  have "round_ties_even (?x / 2 powi (- 52)) = 7074237752028440"
    by (simp add: round_ties_even_def Let_def)
  then have "round_double ?x = 884279719003555 / 2 ^ 49"
    using q by (simp add: round_double_def)
  then show ?thesis
    by (simp add: rotation_to_radians_def DEG_TO_RAD_value double_of_real_def Let_def)
qed

lemma ninety_back: "rotation_to_degrees (Finite (884279719003555 / 2 ^ 49)) = Finite 90"
proof -
  let ?x = "884279719003555 / 2 ^ 49 * (1007958012753983 / 2 ^ 44) :: real"
  have q: "quantum_exp ?x = 6 - 52"
    by (rule quantum_exp_eq) simp_all
  have "round_ties_even (?x / 2 powi (- 46)) = 6333186975989760"
    by (simp add: round_ties_even_def Let_def)
  then have "round_double ?x = 90"
    using q by (simp add: round_double_def)
  then show ?thesis
    by (simp add: rotation_to_degrees_def RAD_TO_DEG_value double_of_real_def Let_def)
qed

text \<open>
  Claim C9. For every degree value \<open>d\<close> in \<open>[-180, 180]\<close>, the product with
  \<open>Math.PI / 180\<close> is a finite double \<open>r\<close>, the product of \<open>r\<close> with \<open>180 / Math.PI\<close> is a
  finite double \<open>d'\<close>, and \<open>d'\<close> differs from \<open>d\<close> by at most one millionth.
\<close>

theorem degrees_roundtrip:
  assumes "- 180 \<le> d" and "d \<le> 180"
  shows "\<exists>r d'. rotation_to_radians (Finite d) = Finite r \<and>
           rotation_to_degrees (Finite r) = Finite d' \<and> \<bar>d' - d\<bar> \<le> 1 / 10 ^ 6"
proof -
  define a where "a = MATH_PI / 180"
  define b where "b = 180 / MATH_PI"
  define c1 where "c1 = round_double a"
  define c2 where "c2 = round_double b"
  define r where "r = round_double (d * c1)"
  define d' where "d' = round_double (r * c2)"
  have ab: "a * b = 1" by (simp add: a_def b_def MATH_PI_def)
  have a: "\<bar>a\<bar> \<le> 1 / 50" by (simp add: a_def MATH_PI_def)
  have b: "\<bar>b\<bar> \<le> 58" by (simp add: b_def MATH_PI_def)
  have d: "\<bar>d\<bar> \<le> 180" using assms by simp
  have e1: "\<bar>c1 - a\<bar> \<le> 1 / 10000000000000"
    unfolding c1_def using a by (intro round_double_within[of a "1 / 50"]) auto
  have e2: "\<bar>c2 - b\<bar> \<le> 1 / 10000000000000"
    unfolding c2_def using b by (intro round_double_within[of b 58]) auto
  have c1: "\<bar>c1\<bar> \<le> 1 / 40" using a e1 by linarith
  have c2: "\<bar>c2\<bar> \<le> 59" using b e2 by linarith
  have x1: "\<bar>d * c1\<bar> \<le> 180 * (1 / 40)" by (rule abs_prod_le[OF d c1])
  have e3: "\<bar>r - d * c1\<bar> \<le> 1 / 10000000000000"
    unfolding r_def using x1 by (intro round_double_within[of "d * c1" "180 * (1 / 40)"]) auto
  have r: "\<bar>r\<bar> \<le> 5" using x1 e3 by linarith
  have x2: "\<bar>r * c2\<bar> \<le> 5 * 59" by (rule abs_prod_le[OF r c2])
  have e4: "\<bar>d' - r * c2\<bar> \<le> 1 / 10000000000000"
    unfolding d'_def using x2 by (intro round_double_within[of "r * c2" "5 * 59"]) auto
  have d': "\<bar>d'\<bar> \<le> 300" using x2 e4 by linarith
  have "\<bar>d * (c1 - a)\<bar> \<le> 180 * (1 / 10000000000000)" by (rule abs_prod_le[OF d e1])
  moreover have "r - d * a = (r - d * c1) + d * (c1 - a)" by (simp add: algebra_simps)
  ultimately have ra: "\<bar>r - d * a\<bar> \<le> 181 / 10000000000000" using e3 by linarith
  have t1: "\<bar>(r - d * a) * c2\<bar> \<le> 181 / 10000000000000 * 59" by (rule abs_prod_le[OF ra c2])
  have da: "\<bar>d * a\<bar> \<le> 180 * (1 / 50)" by (rule abs_prod_le[OF d a])
  have t2: "\<bar>(d * a) * (c2 - b)\<bar> \<le> 180 * (1 / 50) * (1 / 10000000000000)" by (rule abs_prod_le[OF da e2])
  have "r * c2 - d = (r - d * a) * c2 + (d * a) * (c2 - b) + d * (a * b) - d"
    by (simp add: algebra_simps)
  then have "r * c2 - d = (r - d * a) * c2 + (d * a) * (c2 - b)" by (simp add: ab)
  then have "\<bar>r * c2 - d\<bar> \<le> 181 / 10000000000000 * 59 + 180 * (1 / 50) * (1 / 10000000000000)"
    using t1 t2 by linarith
  then have "\<bar>d' - d\<bar> \<le> 1 / 1000000" using e4 by linarith
  then have final: "\<bar>d' - d\<bar> \<le> 1 / 10 ^ 6" by simp
  have k1: "DEG_TO_RAD = Finite c1"
    unfolding DEG_TO_RAD_def a_def[symmetric] c1_def using c1 
    by (intro finite_double) (simp add: c1_def)
  have k2: "RAD_TO_DEG = Finite c2"
    unfolding RAD_TO_DEG_def b_def[symmetric] c2_def using c2
    by (intro finite_double) (simp add: c2_def)
  have k3: "rotation_to_radians (Finite d) = Finite r"
    unfolding rotation_to_radians_def k1 r_def using r
    by (simp add: finite_double r_def)
  have k4: "rotation_to_degrees (Finite r) = Finite d'"
    unfolding rotation_to_degrees_def k2 d'_def using d'
    by (simp add: finite_double d'_def)
  from k3 k4 final show ?thesis by blast
qed

text \<open>At 90 degrees the round trip is exact.\<close>

theorem degrees_roundtrip_witness:
  "- 180 \<le> (90::real) \<and> (90::real) \<le> 180 \<and>
   (\<exists>r d'. rotation_to_radians (Finite 90) = Finite r \<and>
           rotation_to_degrees (Finite r) = Finite d' \<and> \<bar>d' - 90\<bar> \<le> 1 / 10 ^ 6) \<and>
   rotation_to_degrees (rotation_to_radians (Finite 90)) = Finite 90"
proof -
  have lo: "- 180 \<le> (90::real)" and hi: "(90::real) \<le> 180" by simp_all
  have "rotation_to_degrees (rotation_to_radians (Finite 90)) = Finite 90"
    by (simp only: ninety_to_radians ninety_back)
  then show ?thesis using lo hi degrees_roundtrip[OF lo hi] by blast
qed

end
